theory Spec2Isabelle
  imports Complex_Main "HOL-Library.Word"
begin

section \<open>The MNIST starter notebook\<close>

text \<open>
  The notebook \<^verbatim>\<open>mnist_starter_pytorch.ipynb\<close> has three code cells: a tensor
  conversion demonstration, the construction of the MNIST datasets and their loaders, and the
  class \<^verbatim>\<open>LinearModel\<close>. Every operation is a call into torch, torchvision, numpy or
  tensorflow. The library functions are written here by what their documentation says they
  compute. A float tensor holds the real numbers that its 32-bit floats denote: an elementwise
  operation rounds its exact result to the nearest float, and the matrix kernel of
  \<^verbatim>\<open>nn.Linear\<close>, whose order of summation the library does not fix, is a parameter.
  The cells themselves are translated statement by statement.
\<close>

subsection \<open>Values of the libraries\<close>

datatype dtype = UInt8 | Int32 | Int64 | Float32

text \<open>
  The exceptions the library calls of the notebook can raise. \<open>NonFinite\<close> is not one of
  them: it marks a result that holds an infinity, which the tensors here cannot hold.
\<close>

datatype error =
    WrongInputType
  | BadDimensions
  | ZeroStd
  | IndexOutOfRange
  | DTypeMismatch dtype dtype
  | ShapeMismatch "nat list" "nat list"
  | ValueOutOfRange
  | NonFinite
  | DownloadFailed
  | DatasetNotFound

subsection \<open>32-bit floats\<close>

text \<open>Rounding a real to the nearest integer, a tie to the even one.\<close>

definition rne :: "real \<Rightarrow> int" where
  "rne x =
     (let f = \<lfloor>x\<rfloor>; d = x - of_int f
      in if d < 1 / 2 then f
         else if 1 / 2 < d then f + 1
         else if even f then f else f + 1)"

text \<open>
  The exponent of the binade of a magnitude \<open>a\<close>: the least \<open>e\<close> from \<open>-126\<close> on with
  \<open>a < 2 ^ (e + 1)\<close>, and \<open>127\<close> at most. Magnitudes below \<open>2 ^ (-126)\<close> (subnormal) share
  the exponent \<open>-126\<close>.
\<close>

fun expo_from :: "nat \<Rightarrow> int \<Rightarrow> real \<Rightarrow> int" where
  "expo_from 0 e a = e"
| "expo_from (Suc n) e a = (if a < 2 powi (e + 1) then e else expo_from n (e + 1) a)"

definition expo :: "real \<Rightarrow> int" where
  "expo a = expo_from 253 (- 126) a"

text \<open>
  Rounding to binary32, to nearest and ties to even: the multiple of the unit
  \<open>2 ^ (e - 23)\<close> of the binade that is nearest to \<open>x\<close>.
\<close>

definition fl32 :: "real \<Rightarrow> real" where
  "fl32 x = of_int (rne (x / 2 powi (expo \<bar>x\<bar> - 23))) * 2 powi (expo \<bar>x\<bar> - 23)"

text \<open>The largest float. A result that rounds beyond it is an infinity in the library.\<close>

definition f32_max :: real where
  "f32_max = (2 ^ 24 - 1) * 2 ^ 104"

text \<open>
  One float operation with the exact result \<open>x\<close>: the rounded value, or nothing when the
  library's result is infinite.
\<close>

definition f32_op :: "real \<Rightarrow> real option" where
  "f32_op x = (if \<bar>fl32 x\<bar> \<le> f32_max then Some (fl32 x) else None)"

text \<open>A tensor: its element type, its shape and its elements in row-major order.\<close>

record 'a tensor =
  dtype :: dtype
  shape :: "nat list"
  elems :: "'a list"

text \<open>
  A sample as the dataset hands it to the transform: a PIL image of mode \<^verbatim>\<open>L\<close>
  (one band of 8-bit intensities), \<open>height\<close> rows of \<open>width\<close> pixels, row by row.
\<close>

record image =
  height :: nat
  width :: nat
  pixels :: "8 word list"

datatype sample = Img image | Ten "real tensor"

subsection \<open>Cell 3: the transform\<close>

text \<open>
  \<^verbatim>\<open>transforms.ToTensor()\<close>, \<^verbatim>\<open>transforms.Normalize(mean, std)\<close> and
  \<^verbatim>\<open>transforms.Compose([...])\<close> are objects; calling one applies it.
\<close>

datatype transform_obj =
    ToTensor
  | Normalize "real list" "real list"
  | Compose "transform_obj list"

text \<open>
  \<^verbatim>\<open>ToTensor\<close> on an image of mode \<^verbatim>\<open>L\<close>: the H x W x 1 bytes become a float tensor of
  shape 1 x H x W, each byte converted to a float (exactly) and divided by 255 in float
  arithmetic.
\<close>

definition to_tensor :: "sample \<Rightarrow> error + sample" where
  "to_tensor s =
     (case s of
        Img pic \<Rightarrow>
          Inr (Ten \<lparr>dtype = Float32, shape = [1, height pic, width pic],
                    elems = map (\<lambda>p. fl32 (real (unat p) / 255)) (pixels pic)\<rparr>)
      | Ten t \<Rightarrow> Inl WrongInputType)"

text \<open>
  The channel of the element at flat index \<open>k\<close> of a tensor of shape \<open>[..., C, H, W]\<close>, and
  the entry of a mean or std sequence that broadcasts onto it (a sequence of length one is
  used for every channel).
\<close>

definition channel_of :: "nat list \<Rightarrow> nat \<Rightarrow> nat" where
  "channel_of shp k =
     (let n = length shp; C = shp ! (n - 3); H = shp ! (n - 2); W = shp ! (n - 1)
      in (k div (H * W)) mod C)"

definition per_channel :: "real list \<Rightarrow> nat \<Rightarrow> real" where
  "per_channel xs c = (if length xs = 1 then xs ! 0 else xs ! c)"

text \<open>
  One element under \<^verbatim>\<open>tensor.sub_(mean).div_(std)\<close>: two float operations.
\<close>

definition normalize_elem :: "real \<Rightarrow> real \<Rightarrow> real \<Rightarrow> real option" where
  "normalize_elem m sd v =
     (case f32_op (v - m) of None \<Rightarrow> None | Some d \<Rightarrow> f32_op (d / sd))"

text \<open>
  \<^verbatim>\<open>Normalize(mean, std)\<close>: a float tensor of at least three dimensions; \<open>mean\<close> and
  \<open>std\<close> converted to floats, no zero in \<open>std\<close>, both of length one or of the number of
  channels; then \<^verbatim>\<open>tensor.sub_(mean).div_(std)\<close> channel by channel.
\<close>

definition normalize :: "real list \<Rightarrow> real list \<Rightarrow> sample \<Rightarrow> error + sample" where
  "normalize mean std s =
     (case s of
        Img pic \<Rightarrow> Inl WrongInputType
      | Ten t \<Rightarrow>
          if dtype t \<noteq> Float32 then Inl WrongInputType
          else if length (shape t) < 3 then Inl BadDimensions
          else if Some 0 \<in> set (map f32_op std) then Inl ZeroStd
          else if length mean \<notin> {1, shape t ! (length (shape t) - 3)}
                  \<or> length std \<notin> {1, shape t ! (length (shape t) - 3)}
            then Inl (ShapeMismatch (shape t) [length mean, length std])
          else
            (case (those (map f32_op mean), those (map f32_op std)) of
               (Some ms, Some sds) \<Rightarrow>
                 (case those (map (\<lambda>(k, v). normalize_elem
                                     (per_channel ms (channel_of (shape t) k))
                                     (per_channel sds (channel_of (shape t) k)) v)
                                (enumerate 0 (elems t))) of
                    Some out \<Rightarrow> Inr (Ten (t\<lparr>elems := out\<rparr>))
                  | None \<Rightarrow> Inl NonFinite)
             | _ \<Rightarrow> Inl NonFinite))"

text \<open>\<^verbatim>\<open>Compose.__call__\<close>: \<^verbatim>\<open>for t in self.transforms: img = t(img)\<close>.\<close>

fun apply_transform :: "transform_obj \<Rightarrow> sample \<Rightarrow> error + sample"
  and apply_all :: "transform_obj list \<Rightarrow> sample \<Rightarrow> error + sample" where
  "apply_transform ToTensor s = to_tensor s"
| "apply_transform (Normalize mean std) s = normalize mean std s"
| "apply_transform (Compose ts) s = apply_all ts s"
| "apply_all [] s = Inr s"
| "apply_all (t # ts) s =
     (case apply_transform t s of Inl e \<Rightarrow> Inl e | Inr s' \<Rightarrow> apply_all ts s')"

text \<open>
  \<^verbatim>\<open>transform = transforms.Compose([transforms.ToTensor(),
  transforms.Normalize((0.5, ), (0.5, ))])\<close>
\<close>

definition transform :: transform_obj where
  "transform = Compose [ToTensor, Normalize [0.5] [0.5]]"

subsection \<open>Cell 3: the datasets and the loaders\<close>

text \<open>
  What \<^verbatim>\<open>datasets.MNIST\<close> finds outside the notebook: the files cached under each root
  directory, and what fetching them from the mirrors gives (the files, or the error the
  library raises when every mirror fails). The files hold the training and the test samples,
  each an image with its label.
\<close>

record mnist_files =
  train_files :: "(image \<times> nat) list"
  test_files :: "(image \<times> nat) list"

record world =
  disk :: "string \<rightharpoonup> mnist_files"
  mirror :: "error + mnist_files"

record MNIST =
  ds_root :: string
  ds_train :: bool
  ds_transform :: "transform_obj option"
  ds_data :: "(image \<times> nat) list"

text \<open>\<^verbatim>\<open>MNIST.download\<close>: nothing to do when the files are there; else fetch and store.\<close>

definition MNIST_download :: "string \<Rightarrow> world \<Rightarrow> (error + unit) \<times> world" where
  "MNIST_download rt w =
     (case disk w rt of
        Some f \<Rightarrow> (Inr (), w)
      | None \<Rightarrow>
          (case mirror w of
             Inl e \<Rightarrow> (Inl e, w)
           | Inr f \<Rightarrow> (Inr (), w\<lparr>disk := (disk w)(rt \<mapsto> f)\<rparr>)))"

text \<open>
  \<^verbatim>\<open>datasets.MNIST(root, train, download, transform)\<close>: download when asked to, fail
  when the files are not under \<open>root\<close>, then load the training or the test part.
\<close>

definition MNIST_init ::
  "string \<Rightarrow> bool \<Rightarrow> bool \<Rightarrow> transform_obj option \<Rightarrow> world \<Rightarrow> (error + MNIST) \<times> world" where
  "MNIST_init rt trn dl tf w =
     (case (if dl then MNIST_download rt w else (Inr (), w)) of
        (Inl e, w') \<Rightarrow> (Inl e, w')
      | (Inr u, w') \<Rightarrow>
          (case disk w' rt of
             None \<Rightarrow> (Inl DatasetNotFound, w')
           | Some f \<Rightarrow>
               (Inr \<lparr>ds_root = rt, ds_train = trn, ds_transform = tf,
                     ds_data = (if trn then train_files f else test_files f)\<rparr>, w')))"


record DataLoader =
  dl_dataset :: MNIST
  dl_batch_size :: nat
  dl_shuffle :: bool






text \<open>The names the cell binds.\<close>

record cell3_env =
  train_dataset :: MNIST
  test_dataset :: MNIST
  batch_size :: nat
  train_loader :: DataLoader
  test_loader :: DataLoader

definition cell3 :: "world \<Rightarrow> (error + cell3_env) \<times> world" where
  "cell3 w =
     (case MNIST_init ''./data'' True True (Some transform) w of
        (Inl e, w1) \<Rightarrow> (Inl e, w1)
      | (Inr trn, w1) \<Rightarrow>
          (case MNIST_init ''./data'' False True (Some transform) w1 of
             (Inl e, w2) \<Rightarrow> (Inl e, w2)
           | (Inr tst, w2) \<Rightarrow>
               (Inr \<lparr>train_dataset = trn, test_dataset = tst, batch_size = 64,
                     train_loader = \<lparr>dl_dataset = trn, dl_batch_size = 64, dl_shuffle = True\<rparr>,
                     test_loader = \<lparr>dl_dataset = tst, dl_batch_size = 64, dl_shuffle = False\<rparr>\<rparr>,
                w2)))"

subsection \<open>Cell 4: the linear model\<close>

text \<open>
  \<^verbatim>\<open>nn.Linear\<close> holds a weight of shape \<open>[out_features, in_features]\<close> and a bias of shape
  \<open>[out_features]\<close>. Its constructor fills both from the random number generator; the
  generator is the sequence of the values it will hand out next.
\<close>

record Linear =
  in_features :: nat
  out_features :: nat
  weight :: "real tensor"
  bias :: "real tensor"

type_synonym rng = "nat \<Rightarrow> real"

definition draw :: "nat \<Rightarrow> rng \<Rightarrow> real list \<times> rng" where
  "draw n g = (map g [0..<n], (\<lambda>k. g (n + k)))"

definition nn_Linear :: "nat \<Rightarrow> nat \<Rightarrow> rng \<Rightarrow> Linear \<times> rng" where
  "nn_Linear n_in n_out g =
     (case draw (n_out * n_in) g of
        (ws, g1) \<Rightarrow>
          (case draw n_out g1 of
             (bs, g2) \<Rightarrow>
               (\<lparr>in_features = n_in, out_features = n_out,
                 weight = \<lparr>dtype = Float32, shape = [n_out, n_in], elems = ws\<rparr>,
                 bias = \<lparr>dtype = Float32, shape = [n_out], elems = bs\<rparr>\<rparr>, g2)))"

text \<open>
  The float kernel behind \<^verbatim>\<open>F.linear\<close>: from the input, the weight and the bias it
  computes, in 32-bit floats, the elements of \<open>input W\<^sup>T + b\<close>. The order in which it sums
  is the library's own and differs between builds, so the kernel is a parameter here.
\<close>

type_synonym kernel = "real tensor \<Rightarrow> real tensor \<Rightarrow> real tensor \<Rightarrow> real list"

text \<open>
  \<^verbatim>\<open>Linear.forward\<close>, that is \<^verbatim>\<open>F.linear(input, self.weight, self.bias)\<close>: the input
  must have the weight's element type and at least one dimension, the last one of the size
  of the weight's columns; the result has the input's shape with the last dimension replaced
  by the number of the weight's rows, and the elements that the kernel computes.
\<close>

definition Linear_forward :: "kernel \<Rightarrow> Linear \<Rightarrow> real tensor \<Rightarrow> error + real tensor" where
  "Linear_forward K l inp =
     (case shape (weight l) of
        [n_out, n_in] \<Rightarrow>
          if dtype inp \<noteq> dtype (weight l) then Inl (DTypeMismatch (dtype inp) (dtype (weight l)))
          else if dtype (bias l) \<noteq> dtype (weight l)
            then Inl (DTypeMismatch (dtype (bias l)) (dtype (weight l)))
          else if shape inp = [] \<or> last (shape inp) \<noteq> n_in
            then Inl (ShapeMismatch (shape inp) (shape (weight l)))
          else if shape (bias l) \<noteq> [n_out]
            then Inl (ShapeMismatch (shape (bias l)) (shape (weight l)))
          else Inr \<lparr>dtype = dtype inp, shape = butlast (shape inp) @ [n_out],
                    elems = K inp (weight l) (bias l)\<rparr>
      | _ \<Rightarrow> Inl (ShapeMismatch (shape inp) (shape (weight l))))"

text \<open>\<^verbatim>\<open>torch.relu\<close>: the larger of zero and the element, which is exact on floats.\<close>

definition relu :: "real tensor \<Rightarrow> real tensor" where
  "relu t = t\<lparr>elems := map (max 0) (elems t)\<rparr>"

record LinearModel =
  fc1 :: Linear
  fc2 :: Linear

text \<open>
  \<^verbatim>\<open>LinearModel.__init__\<close>: \<^verbatim>\<open>self.fc1 = nn.Linear(784, 64)\<close>, then
  \<^verbatim>\<open>self.fc2 = nn.Linear(64, 10)\<close>.
\<close>

definition LinearModel_init :: "rng \<Rightarrow> LinearModel \<times> rng" where
  "LinearModel_init g =
     (case nn_Linear 784 64 g of
        (l1, g1) \<Rightarrow>
          (case nn_Linear 64 10 g1 of
             (l2, g2) \<Rightarrow> (\<lparr>fc1 = l1, fc2 = l2\<rparr>, g2)))"

text \<open>
  A call of \<^verbatim>\<open>forward(self, x)\<close> runs its two statements on a frame of the two local names;
  \<open>self\<close> refers to the model object, so the frame at exit also shows what the call did to it.
\<close>

record frame =
  local_self :: LinearModel
  local_x :: "real tensor"

text \<open>\<^verbatim>\<open>x = torch.relu(self.fc1(x))\<close>\<close>

definition forward_stmt1 :: "kernel \<Rightarrow> frame \<Rightarrow> (error + unit) \<times> frame" where
  "forward_stmt1 K f =
     (case Linear_forward K (fc1 (local_self f)) (local_x f) of
        Inl e \<Rightarrow> (Inl e, f)
      | Inr h \<Rightarrow> (Inr (), f\<lparr>local_x := relu h\<rparr>))"

text \<open>\<^verbatim>\<open>x = self.fc2(x)\<close>\<close>

definition forward_stmt2 :: "kernel \<Rightarrow> frame \<Rightarrow> (error + unit) \<times> frame" where
  "forward_stmt2 K f =
     (case Linear_forward K (fc2 (local_self f)) (local_x f) of
        Inl e \<Rightarrow> (Inl e, f)
      | Inr y \<Rightarrow> (Inr (), f\<lparr>local_x := y\<rparr>))"

datatype pyval = PyNone | PyTensor "real tensor"

text \<open>
  The body ends after the second statement without a \<^verbatim>\<open>return\<close>, so a call that gets
  there returns \<^verbatim>\<open>None\<close>. The result is paired with the frame at exit.
\<close>

definition forward :: "kernel \<Rightarrow> LinearModel \<Rightarrow> real tensor \<Rightarrow> (error + pyval) \<times> frame" where
  "forward K slf inp =
     (case forward_stmt1 K \<lparr>local_self = slf, local_x = inp\<rparr> of
        (Inl e, f1) \<Rightarrow> (Inl e, f1)
      | (Inr u, f1) \<Rightarrow>
          (case forward_stmt2 K f1 of
             (Inl e, f2) \<Rightarrow> (Inl e, f2)
           | (Inr u', f2) \<Rightarrow> (Inr PyNone, f2)))"

text \<open>A tensor is well formed when it has as many elements as its shape says.\<close>

definition wf_tensor :: "'a tensor \<Rightarrow> bool" where
  "wf_tensor t = (length (elems t) = prod_list (shape t))"

text \<open>
  What the constructor of \<^verbatim>\<open>nn.Linear\<close> establishes and training keeps: float parameters
  of the shapes that the two feature counts give.
\<close>

definition Linear_inv :: "Linear \<Rightarrow> bool" where
  "Linear_inv l =
     (dtype (weight l) = Float32 \<and> dtype (bias l) = Float32
      \<and> shape (weight l) = [out_features l, in_features l]
      \<and> shape (bias l) = [out_features l]
      \<and> wf_tensor (weight l) \<and> wf_tensor (bias l))"

text \<open>The same for the model: its two layers with the feature counts of \<^verbatim>\<open>__init__\<close>.\<close>

definition LinearModel_inv :: "LinearModel \<Rightarrow> bool" where
  "LinearModel_inv m =
     (Linear_inv (fc1 m) \<and> in_features (fc1 m) = 784 \<and> out_features (fc1 m) = 64
      \<and> Linear_inv (fc2 m) \<and> in_features (fc2 m) = 64 \<and> out_features (fc2 m) = 10)"

subsection \<open>Cell 2: conversions between the tensor libraries\<close>

text \<open>
  A torch tensor, a numpy array and a tensorflow tensor of integers are each described by
  element type, shape and elements.
\<close>

type_synonym torch_tensor = "int tensor"
type_synonym ndarray = "int tensor"
type_synonym tf_tensor = "int tensor"

definition fits :: "dtype \<Rightarrow> int \<Rightarrow> bool" where
  "fits d v =
     (case d of
        UInt8 \<Rightarrow> 0 \<le> v \<and> v < 2 ^ 8
      | Int32 \<Rightarrow> - (2 ^ 31) \<le> v \<and> v < 2 ^ 31
      | Int64 \<Rightarrow> - (2 ^ 63) \<le> v \<and> v < 2 ^ 63
      | Float32 \<Rightarrow> True)"

text \<open>Conversion of a stored integer to an element type, wrapping as in C.\<close>

definition cast :: "dtype \<Rightarrow> int \<Rightarrow> int" where
  "cast d v =
     (case d of
        UInt8 \<Rightarrow> uint (word_of_int v :: 8 word)
      | Int32 \<Rightarrow> sint (word_of_int v :: 32 word)
      | Int64 \<Rightarrow> sint (word_of_int v :: 64 word)
      | Float32 \<Rightarrow> v)"

text \<open>\<^verbatim>\<open>torch.tensor(data, dtype=d)\<close> and \<^verbatim>\<open>tf.constant(data, dtype=d)\<close> on a list
  of Python integers: a value that does not fit the element type is an error.\<close>

definition torch_tensor_of_list :: "int list \<Rightarrow> dtype \<Rightarrow> error + torch_tensor" where
  "torch_tensor_of_list xs d =
     (if list_all (fits d) xs then Inr \<lparr>dtype = d, shape = [length xs], elems = xs\<rparr>
      else Inl ValueOutOfRange)"

definition tf_constant :: "int list \<Rightarrow> dtype \<Rightarrow> error + tf_tensor" where
  "tf_constant xs d =
     (if list_all (fits d) xs then Inr \<lparr>dtype = d, shape = [length xs], elems = xs\<rparr>
      else Inl ValueOutOfRange)"

text \<open>\<^verbatim>\<open>Tensor.numpy()\<close> of either library: the array of the same element type and
  contents. \<^verbatim>\<open>tf.convert_to_tensor(array)\<close> keeps the element type of the array.\<close>

definition torch_numpy :: "torch_tensor \<Rightarrow> ndarray" where
  "torch_numpy t = \<lparr>dtype = dtype t, shape = shape t, elems = elems t\<rparr>"

definition tf_numpy :: "tf_tensor \<Rightarrow> ndarray" where
  "tf_numpy t = \<lparr>dtype = dtype t, shape = shape t, elems = elems t\<rparr>"

definition tf_convert_to_tensor :: "ndarray \<Rightarrow> tf_tensor" where
  "tf_convert_to_tensor a = \<lparr>dtype = dtype a, shape = shape a, elems = elems a\<rparr>"

text \<open>\<^verbatim>\<open>torch.tensor(array, dtype=d)\<close>: a copy of the array, each element converted.\<close>

definition torch_tensor_of_array :: "ndarray \<Rightarrow> dtype \<Rightarrow> torch_tensor" where
  "torch_tensor_of_array a d = \<lparr>dtype = d, shape = shape a, elems = map (cast d) (elems a)\<rparr>"

text \<open>What \<^verbatim>\<open>print\<close> shows for a \<^verbatim>\<open>.dtype\<close> of torch and of tensorflow.\<close>

definition dtype_name :: "dtype \<Rightarrow> string" where
  "dtype_name d =
     (case d of UInt8 \<Rightarrow> ''uint8'' | Int32 \<Rightarrow> ''int32'' | Int64 \<Rightarrow> ''int64''
      | Float32 \<Rightarrow> ''float32'')"

definition torch_dtype_str :: "dtype \<Rightarrow> string" where
  "torch_dtype_str d = ''torch.'' @ dtype_name d"

definition tf_dtype_str :: "dtype \<Rightarrow> string" where
  "tf_dtype_str d = ''<dtype: '' @ [CHR 0x27] @ dtype_name d @ [CHR 0x27] @ ''>''"

text \<open>The names the cell binds, and the lines it has printed.\<close>

record cell2_env =
  pytorch_tensor :: torch_tensor
  tf_tensor :: tf_tensor
  numpy_array :: "ndarray option"
  stdout :: "string list"

text \<open>The first half of the cell: from a torch tensor to a tensorflow tensor.\<close>

definition cell2_first :: "error + cell2_env" where
  "cell2_first =
     (case torch_tensor_of_list [1, 2, 3] Int32 of
        Inl e \<Rightarrow> Inl e
      | Inr pt \<Rightarrow>
          (let tt = tf_convert_to_tensor (torch_numpy pt)
           in Inr \<lparr>pytorch_tensor = pt, tf_tensor = tt, numpy_array = None,
                   stdout = [torch_dtype_str (dtype pt), tf_dtype_str (dtype tt)]\<rparr>))"

text \<open>The second half: from a tensorflow tensor through numpy to a torch tensor.\<close>

definition cell2_second :: "cell2_env \<Rightarrow> error + cell2_env" where
  "cell2_second env =
     (case tf_constant [1, 2, 3] Int32 of
        Inl e \<Rightarrow> Inl e
      | Inr tt \<Rightarrow>
          (let na = tf_numpy tt;
               pt = torch_tensor_of_array na Int32
           in Inr \<lparr>pytorch_tensor = pt, tf_tensor = tt, numpy_array = Some na,
                   stdout = stdout env @
                     [''TensorFlow Tensor: '' @ tf_dtype_str (dtype tt),
                      ''PyTorch Tensor: '' @ torch_dtype_str (dtype pt)]\<rparr>))"

definition cell2 :: "error + cell2_env" where
  "cell2 = (case cell2_first of Inl e \<Rightarrow> Inl e | Inr env \<Rightarrow> cell2_second env)"

section \<open>Properties\<close>

subsection \<open>Rounding to 32-bit floats\<close>

lemma rne_floor: "\<lfloor>x\<rfloor> \<le> rne x" and rne_ceil: "rne x \<le> \<lfloor>x\<rfloor> + 1"
  by (simp_all add: rne_def Let_def)

lemma rne_of_int: "rne (of_int n) = n"
  by (simp add: rne_def)

lemma rne_error: "\<bar>of_int (rne x) - x\<bar> \<le> 1 / 2"
proof -
  have "of_int \<lfloor>x\<rfloor> \<le> x" "x < of_int \<lfloor>x\<rfloor> + 1" by linarith+
  then show ?thesis by (auto simp add: rne_def Let_def)
qed

lemma rne_le: assumes "x \<le> of_int n" shows "rne x \<le> n"
proof (cases "x = of_int n")
  case True then show ?thesis by (simp add: rne_of_int)
next
  case False
  with assms have "x < of_int n" by simp
  then have "\<lfloor>x\<rfloor> < n" by (simp add: floor_less_iff)
  with rne_ceil [of x] show ?thesis by linarith
qed

lemma rne_ge: assumes "of_int n \<le> x" shows "n \<le> rne x"
proof -
  from assms have "n \<le> \<lfloor>x\<rfloor>" by (simp add: le_floor_iff)
  with rne_floor [of x] show ?thesis by linarith
qed

text \<open>
  The exponent that \<open>expo\<close> finds is the one of the binade.
\<close>

lemma pow2_less_iff: "(2::real) powi m < 2 powi n \<longleftrightarrow> m < n"
proof
  assume l: "(2::real) powi m < 2 powi n"
  show "m < n"
  proof (rule ccontr)
    assume "\<not> m < n"
    then have "(2::real) powi n \<le> 2 powi m" by (intro power_int_increasing) simp_all
    with l show False by simp
  qed
next
  assume "m < n"
  then show "(2::real) powi m < 2 powi n" by (intro power_int_strict_increasing) simp_all
qed

lemma pow2_le_iff: "(2::real) powi m \<le> 2 powi n \<longleftrightarrow> m \<le> n"
  using pow2_less_iff [of n m] by (simp add: not_less [symmetric] del: not_less)

lemma expo_from_range: "e \<le> expo_from n e a \<and> expo_from n e a \<le> e + int n"
  by (induction n e a rule: expo_from.induct) auto

lemma expo_from_upper:
  "a < 2 powi (e + int n + 1) \<Longrightarrow> a < 2 powi (expo_from n e a + 1)"
  by (induction n e a rule: expo_from.induct) (auto simp add: algebra_simps)

lemma expo_from_eq:
  assumes "e0 \<le> e" and "e - e0 \<le> int n" and "2 powi e \<le> a" and "a < 2 powi (e + 1)"
  shows "expo_from n e0 a = e"
  using assms
proof (induction n e0 a rule: expo_from.induct)
  case (1 e0 a)
  then show ?case by simp
next
  case (2 n e0 a)
  show ?case
  proof (cases "a < 2 powi (e0 + 1)")
    case True
    with "2.prems"(3) have "(2::real) powi e < 2 powi (e0 + 1)" by linarith
    then have "e < e0 + 1" by (simp add: pow2_less_iff)
    with "2.prems"(1) True show ?thesis by simp
  next
    case False
    with "2.prems"(4) have "(2::real) powi (e0 + 1) < 2 powi (e + 1)" by linarith
    then have "e0 + 1 \<le> e" by (simp add: pow2_less_iff)
    with False "2.prems" "2.IH" show ?thesis by simp
  qed
qed


lemma expo_range: "- 126 \<le> expo a" "expo a \<le> 127"
  using expo_from_range [of "- 126" 253 a] by (simp_all add: expo_def)

lemma expo_upper: "a < 2 powi 128 \<Longrightarrow> a < 2 powi (expo a + 1)"
  using expo_from_upper [of a "- 126" 253] by (simp add: expo_def)

lemma expo_eq:
  assumes "- 126 \<le> e" and "e \<le> 127" and "2 powi e \<le> a" and "a < 2 powi (e + 1)"
  shows "expo a = e"
  unfolding expo_def using assms by (intro expo_from_eq) simp_all

lemma expo_from_small:
  "e0 < k \<Longrightarrow> a < 2 powi k \<Longrightarrow> expo_from n e0 a < k"
proof (induction n e0 a rule: expo_from.induct)
  case (1 e a)
  then show ?case by simp
next
  case (2 n e a)
  show ?case
  proof (cases "a < 2 powi (e + 1)")
    case True
    with "2.prems" show ?thesis by simp
  next
    case False
    with "2.prems"(2) have "(2::real) powi (e + 1) < 2 powi k" by linarith
    then have "e + 1 < k" by (simp add: pow2_less_iff)
    with False "2.IH" "2.prems"(2) show ?thesis by simp
  qed
qed

lemma expo_small: "- 126 < k \<Longrightarrow> a < 2 powi k \<Longrightarrow> expo a < k"
  unfolding expo_def by (rule expo_from_small)

text \<open>
  Rounding never leaves an interval bounded by a power of two, and moves a value by at most
  half a unit of its binade.
\<close>

lemma fl32_bound:
  assumes k: "- 126 \<le> k" "k \<le> 127" and x: "\<bar>x\<bar> \<le> 2 powi k"
  shows "\<bar>fl32 x\<bar> \<le> 2 powi k" and "\<bar>fl32 x - x\<bar> \<le> 2 powi (k - 24)"
proof -
  let ?e = "expo \<bar>x\<bar>"
  let ?u = "(2::real) powi (?e - 23)"
  let ?y = "x / ?u"
  have upos: "0 < ?u" by simp
  have "\<bar>x\<bar> < 2 powi (k + 1)"
    using x power_int_strict_increasing [of k "k + 1" "2::real"] by simp
  then have "?e < k + 1" using k by (intro expo_small) simp_all
  then have ek: "?e \<le> k" by simp
  define N where "N = (2::int) ^ nat (k - ?e + 23)"
  have N: "(of_int N :: real) * ?u = 2 powi k"
  proof -
    have "(of_int N :: real) = 2 powi (k - ?e + 23)"
      using ek by (simp add: N_def power_int_def)
    then have "(of_int N :: real) * ?u = 2 powi (k - ?e + 23) * 2 powi (?e - 23)" by simp
    also have "\<dots> = 2 powi ((k - ?e + 23) + (?e - 23))"
      by (subst power_int_add) simp_all
    finally show ?thesis by simp
  qed
  have "\<bar>?y\<bar> = \<bar>x\<bar> / ?u" by simp
  also have "\<dots> \<le> 2 powi k / ?u" using x upos by (simp add: divide_right_mono)
  also have "\<dots> = of_int N" using N upos by (simp add: field_simps)
  finally have y: "\<bar>?y\<bar> \<le> of_int N" .
  from y have y1: "?y \<le> of_int N" by (rule abs_le_D1)
  from y have "- ?y \<le> of_int N" by (rule abs_le_D2)
  then have y2: "of_int (- N) \<le> ?y" by linarith
  from y1 y2
  have "rne ?y \<le> N" "- N \<le> rne ?y" by (auto intro: rne_le rne_ge)
  then have "\<bar>of_int (rne ?y) :: real\<bar> \<le> of_int N"
    by linarith
  then have "\<bar>of_int (rne ?y) :: real\<bar> * ?u \<le> of_int N * ?u"
    using upos by (intro mult_right_mono) simp_all
  then show "\<bar>fl32 x\<bar> \<le> 2 powi k"
    by (simp add: fl32_def abs_mult N)
  have "fl32 x - x = (of_int (rne ?y) - ?y) * ?u"
    using upos by (simp add: fl32_def field_simps)
  then have "\<bar>fl32 x - x\<bar> = \<bar>of_int (rne ?y) - ?y\<bar> * ?u"
    by (simp add: abs_mult)
  also have "\<dots> \<le> 1 / 2 * ?u"
    using upos rne_error [of ?y] by (intro mult_right_mono) simp_all
  also have "\<dots> = 2 powi (?e - 24)"
  proof -
    have "(2::real) powi (?e - 23) = 2 powi ((?e - 24) + 1)" by simp
    also have "\<dots> = 2 powi (?e - 24) * 2" by (subst power_int_add) simp_all
    finally show ?thesis by simp
  qed
  also have "\<dots> \<le> 2 powi (k - 24)"
    using ek by (intro power_int_increasing) simp_all
  finally show "\<bar>fl32 x - x\<bar> \<le> 2 powi (k - 24)" .
qed

lemma fl32_nonneg: assumes "0 \<le> x" shows "0 \<le> fl32 x"
proof -
  have "0 \<le> x / 2 powi (expo \<bar>x\<bar> - 23)" using assms by simp
  then have "0 \<le> rne (x / 2 powi (expo \<bar>x\<bar> - 23))"
    using rne_ge [of 0] by simp
  then show ?thesis by (simp add: fl32_def)
qed

text \<open>
  Evaluation of a rounding once the binade is known, and the values needed below.
\<close>

lemma fl32_eval:
  assumes "- 126 \<le> e" and "e \<le> 127" and "2 powi e \<le> \<bar>x\<bar>" and "\<bar>x\<bar> < 2 powi (e + 1)"
  shows "fl32 x = of_int (rne (x / 2 powi (e - 23))) * 2 powi (e - 23)"
  by (simp add: fl32_def expo_eq [OF assms])

lemma rne_numeral:
  "rne 0 = 0" "rne 1 = 1" "rne (numeral n) = numeral n" "rne (- numeral n) = - numeral n"
  using rne_of_int [of 0] rne_of_int [of 1] rne_of_int [of "numeral n"]
    rne_of_int [of "- numeral n"]
  by simp_all

lemma fl32_0: "fl32 0 = 0"
  by (simp add: fl32_def rne_numeral)

lemma fl32_half: "fl32 (1 / 2) = 1 / 2" "fl32 (- (1 / 2)) = - (1 / 2)"
  by (simp_all add: fl32_eval [of "- 1"] power_int_minus_divide rne_numeral)

lemma fl32_1: "fl32 1 = 1" "fl32 (- 1) = - 1"
  by (simp_all add: fl32_eval [of 0] power_int_minus_divide rne_numeral)

lemma fl32_fifth: "fl32 (1 / 5) = 13421773 / 67108864"
  by (simp add: fl32_eval [of "- 3"] power_int_minus_divide rne_def Let_def)

lemma fl32_51b: "fl32 (13421773 / 67108864 - 1 / 2) = - (5033165 / 16777216)"
  by (simp add: fl32_eval [of "- 2"] power_int_minus_divide rne_def Let_def rne_numeral)

lemma fl32_51c: "fl32 (- (5033165 / 16777216) / (1 / 2)) = - (5033165 / 8388608)"
  by (simp add: fl32_eval [of "- 1"] power_int_minus_divide rne_numeral)

subsection \<open>The transform\<close>

lemma f32_op_small:
  assumes "\<bar>x\<bar> \<le> 1"
  shows "f32_op x = Some (fl32 x)"
proof -
  have "\<bar>fl32 x\<bar> \<le> 2 powi 0" using assms by (intro fl32_bound) simp_all
  then have "\<bar>fl32 x\<bar> \<le> f32_max" by (simp add: f32_max_def)
  then show ?thesis by (simp add: f32_op_def)
qed

lemma byte_unit:
  fixes p :: "8 word"
  shows "0 \<le> real (unat p) / 255" and "real (unat p) / 255 \<le> 1"
proof -
  have "unat p < 2 ^ LENGTH(8)" by (rule unsigned_less)
  then have "unat p \<le> 255" by simp
  then have "real (unat p) \<le> real 255" by (rule of_nat_mono)
  then show "real (unat p) / 255 \<le> 1" by (simp del: of_nat_unat)
  have "0 \<le> real (unat p)" by (rule of_nat_0_le_iff)
  then show "0 \<le> real (unat p) / 255" by (simp del: of_nat_unat)
qed

text \<open>The three roundings of one pixel of intensity \<open>v\<close>, each within its bounds.\<close>

lemma pixel_steps:
  assumes "0 \<le> v" and "v \<le> 1"
  shows "0 \<le> fl32 v" and "fl32 v \<le> 1" and "\<bar>fl32 v - v\<bar> \<le> 1 / 2 ^ 24"
    and "\<bar>fl32 (fl32 v - 1 / 2)\<bar> \<le> 1 / 2"
    and "\<bar>fl32 (fl32 v - 1 / 2) - (fl32 v - 1 / 2)\<bar> \<le> 1 / 2 ^ 25"
    and "\<bar>fl32 (fl32 (fl32 v - 1 / 2) / (1 / 2))\<bar> \<le> 1"
    and "\<bar>fl32 (fl32 (fl32 v - 1 / 2) / (1 / 2)) - fl32 (fl32 v - 1 / 2) / (1 / 2)\<bar> \<le> 1 / 2 ^ 24"
proof -
  have v: "\<bar>v\<bar> \<le> 2 powi 0" using assms by simp
  show a0: "0 \<le> fl32 v" using assms(1) by (rule fl32_nonneg)
  have "\<bar>fl32 v\<bar> \<le> 2 powi 0" using v by (intro fl32_bound) simp_all
  then show a1: "fl32 v \<le> 1" by simp
  have "\<bar>fl32 v - v\<bar> \<le> 2 powi (0 - 24)" using v by (intro fl32_bound) simp_all
  then show "\<bar>fl32 v - v\<bar> \<le> 1 / 2 ^ 24" by (simp add: power_int_minus_divide)
  have "\<bar>fl32 v - 1 / 2\<bar> \<le> 1 / 2"
    using a0 a1 by linarith
  then have b: "\<bar>fl32 v - 1 / 2\<bar> \<le> 2 powi (- 1)"
    by (simp add: power_int_minus_divide)
  have "\<bar>fl32 (fl32 v - 1 / 2)\<bar> \<le> 2 powi (- 1)" using b by (intro fl32_bound) simp_all
  then show b1: "\<bar>fl32 (fl32 v - 1 / 2)\<bar> \<le> 1 / 2" by (simp add: power_int_minus_divide)
  have "\<bar>fl32 (fl32 v - 1 / 2) - (fl32 v - 1 / 2)\<bar> \<le> 2 powi (- 1 - 24)"
    using b by (intro fl32_bound) simp_all
  then show "\<bar>fl32 (fl32 v - 1 / 2) - (fl32 v - 1 / 2)\<bar> \<le> 1 / 2 ^ 25"
    by (simp add: power_int_minus_divide)
  have c: "\<bar>fl32 (fl32 v - 1 / 2) / (1 / 2)\<bar> \<le> 2 powi 0"
    using b1 by simp
  have "\<bar>fl32 (fl32 (fl32 v - 1 / 2) / (1 / 2))\<bar> \<le> 2 powi 0"
    using c by (intro fl32_bound) simp_all
  then show "\<bar>fl32 (fl32 (fl32 v - 1 / 2) / (1 / 2))\<bar> \<le> 1" by simp
  have "\<bar>fl32 (fl32 (fl32 v - 1 / 2) / (1 / 2)) - fl32 (fl32 v - 1 / 2) / (1 / 2)\<bar>
      \<le> 2 powi (0 - 24)"
    using c by (intro fl32_bound) simp_all
  then show "\<bar>fl32 (fl32 (fl32 v - 1 / 2) / (1 / 2)) - fl32 (fl32 v - 1 / 2) / (1 / 2)\<bar>
      \<le> 1 / 2 ^ 24"
    by (simp add: power_int_minus_divide)
qed

lemma pixel_error:
  assumes "0 \<le> v" and "v \<le> 1"
  shows "\<bar>fl32 (fl32 (fl32 v - 1 / 2) / (1 / 2)) - (v - 1 / 2) / (1 / 2)\<bar> \<le> 1 / 2 ^ 22"
proof -
  define a where "a = fl32 v"
  define b where "b = fl32 (a - 1 / 2)"
  define c where "c = fl32 (b / (1 / 2))"
  have "\<bar>a - v\<bar> \<le> 1 / 16777216" "\<bar>b - (a - 1 / 2)\<bar> \<le> 1 / 33554432"
    "\<bar>c - b * 2\<bar> \<le> 1 / 16777216"
    using pixel_steps(3,5,7) [OF assms] by (simp_all add: a_def b_def c_def)
  then have d: "\<bar>c - (2 * v - 1)\<bar> \<le> 1 / 4194304"
    by linarith
  have e: "(v - 1 / 2) / (1 / 2) = 2 * v - 1"
    by (simp add: field_simps)
  have "\<bar>c - (v - 1 / 2) / (1 / 2)\<bar> \<le> 1 / 2 ^ 22"
    unfolding e using d by simp
  then show ?thesis
    unfolding c_def b_def a_def .
qed

lemma normalize_elem_pixel:
  assumes "0 \<le> v" and "v \<le> 1"
  shows "normalize_elem (1 / 2) (1 / 2) (fl32 v)
         = Some (fl32 (fl32 (fl32 v - 1 / 2) / (1 / 2)))"
proof -
  have "\<bar>fl32 v - 1 / 2\<bar> \<le> 1"
    using pixel_steps(1,2) [OF assms] by linarith
  then have s1: "f32_op (fl32 v - 1 / 2) = Some (fl32 (fl32 v - 1 / 2))"
    by (rule f32_op_small)
  have "\<bar>fl32 (fl32 v - 1 / 2) / (1 / 2)\<bar> \<le> 1"
    using pixel_steps(4) [OF assms] by simp
  then have s2: "f32_op (fl32 (fl32 v - 1 / 2) / (1 / 2))
      = Some (fl32 (fl32 (fl32 v - 1 / 2) / (1 / 2)))"
    by (rule f32_op_small)
  show ?thesis by (simp only: normalize_elem_def s1 s2 option.case)
qed

lemma those_map_Some:
  assumes "\<And>x. x \<in> set xs \<Longrightarrow> f x = Some (g x)"
  shows "those (map f xs) = Some (map g xs)"
  using assms by (induction xs) simp_all

lemma map_enumerate_snd: "map (\<lambda>(k, v). f v) (enumerate n xs) = map f xs"
  by (induction xs arbitrary: n) simp_all

lemma per_channel_single: "per_channel [a] c = a"
  by (simp add: per_channel_def)

lemma f32_op_half: "f32_op (1 / 2) = Some (1 / 2)"
  using f32_op_small [of "1 / 2"] by (simp add: fl32_half)

text \<open>
  On an image the transform never fails, and it acts on each pixel by itself: three float
  operations on the intensity.
\<close>

lemma transform_image:
  "apply_transform transform (Img pic) =
     Inr (Ten \<lparr>dtype = Float32, shape = [1, height pic, width pic],
               elems = map (\<lambda>p. fl32 (fl32 (fl32 (real (unat p) / 255) - 1 / 2) / (1 / 2)))
                           (pixels pic)\<rparr>)"
proof -
  have "those (map (normalize_elem (1 / 2) (1 / 2))
                   (map (\<lambda>p. fl32 (real (unat p) / 255)) (pixels pic)))
        = Some (map (\<lambda>p. fl32 (fl32 (fl32 (real (unat p) / 255) - 1 / 2) / (1 / 2)))
                    (pixels pic))"
    unfolding map_map o_def
    by (rule those_map_Some) (rule normalize_elem_pixel [OF byte_unit])
  then show ?thesis
    by (simp add: transform_def to_tensor_def normalize_def per_channel_single
        map_enumerate_snd f32_op_half o_def del: of_nat_unat)
qed


lemma pixel_black: "fl32 (fl32 (fl32 (real (unat (0 :: 8 word)) / 255) - 1 / 2) / (1 / 2)) = - 1"
  by (simp add: fl32_0 fl32_half fl32_1)

lemma pixel_white: "fl32 (fl32 (fl32 (real (unat (255 :: 8 word)) / 255) - 1 / 2) / (1 / 2)) = 1"
  by (simp add: fl32_0 fl32_half fl32_1)

lemma pixel_51: "fl32 (fl32 (fl32 (real (unat (51 :: 8 word)) / 255) - 1 / 2) / (1 / 2))
    = - (5033165 / 8388608)"
proof -
  have "real (unat (51 :: 8 word)) / 255 = 1 / 5" by simp
  then show ?thesis by (simp only: fl32_fifth fl32_51b fl32_51c)
qed

text \<open>
  C1. Under the transform of the notebook (\<^verbatim>\<open>ToTensor\<close>, which divides by 255, then
  \<^verbatim>\<open>Normalize((0.5,), (0.5,))\<close>), computed in 32-bit floats, a pixel of intensity 0 becomes
  exactly \<open>-1\<close> and a pixel of intensity 255 becomes exactly \<open>1\<close>, at every position of every
  image, whatever the other pixels are.
\<close>

theorem transform_endpoints:
  "\<exists>t. apply_transform transform (Img pic) = Inr (Ten t)
      \<and> length (elems t) = length (pixels pic)
      \<and> (\<forall>i<length (pixels pic).
            (pixels pic ! i = 0 \<longrightarrow> elems t ! i = - 1)
            \<and> (pixels pic ! i = 255 \<longrightarrow> elems t ! i = 1))"
  using pixel_black pixel_white by (simp add: transform_image del: of_nat_unat)

theorem transform_endpoints_witness:
  "(0::nat) < length (pixels \<lparr>height = 1, width = 2, pixels = [0, 255]\<rparr>)
   \<and> pixels \<lparr>height = 1, width = 2, pixels = [0, 255]\<rparr> ! 0 = 0
   \<and> (1::nat) < length (pixels \<lparr>height = 1, width = 2, pixels = [0, 255]\<rparr>)
   \<and> pixels \<lparr>height = 1, width = 2, pixels = [0, 255]\<rparr> ! 1 = 255
   \<and> (\<exists>t. apply_transform transform (Img \<lparr>height = 1, width = 2, pixels = [0, 255]\<rparr>)
            = Inr (Ten t)
          \<and> elems t ! 0 = - 1 \<and> elems t ! 1 = 1)"
proof -
  let ?pic = "\<lparr>height = 1, width = 2, pixels = [0, 255]\<rparr>"
  from transform_endpoints [of ?pic]
  obtain t where t: "apply_transform transform (Img ?pic) = Inr (Ten t)"
    and el: "\<And>i. i < 2 \<Longrightarrow> (pixels ?pic ! i = 0 \<longrightarrow> elems t ! i = - 1)
                             \<and> (pixels ?pic ! i = 255 \<longrightarrow> elems t ! i = 1)"
    by auto
  from el [of 0] el [of 1] have "elems t ! 0 = - 1" "elems t ! 1 = 1"
    by simp_all
  with t show ?thesis by auto
qed

text \<open>
  C5, as amended. The transform turns a raw 28 x 28 sample into a float tensor of shape
  1 x 28 x 28: the 28 x 28 grid with a channel dimension in front. The value at each position
  is the map \<open>(v/255 - 0.5)/0.5\<close> evaluated on the pixel's intensity \<open>v\<close> in 32-bit floats,
  three roundings; it is within \<open>1 / 2 ^ 22\<close> of the exact value of the map and lies between
  \<open>-1\<close> and \<open>1\<close>.
\<close>

theorem transform_sample:
  assumes "height pic = 28" and "width pic = 28" and "length (pixels pic) = 784"
  shows "\<exists>t. apply_transform transform (Img pic) = Inr (Ten t)
           \<and> dtype t = Float32
           \<and> shape t = [1, height pic, width pic]
           \<and> length (elems t) = length (pixels pic)
           \<and> (\<forall>k<784.
                 elems t ! k
                   = fl32 (fl32 (fl32 (real (unat (pixels pic ! k)) / 255) - 0.5) / 0.5)
                 \<and> \<bar>elems t ! k - (real (unat (pixels pic ! k)) / 255 - 0.5) / 0.5\<bar> \<le> 1 / 2 ^ 22
                 \<and> - 1 \<le> elems t ! k \<and> elems t ! k \<le> 1)"
proof -
  let ?f = "\<lambda>p :: 8 word. fl32 (fl32 (fl32 (real (unat p) / 255) - 1 / 2) / (1 / 2))"
  have r: "\<bar>?f p - (real (unat p) / 255 - 1 / 2) / (1 / 2)\<bar> \<le> 1 / 2 ^ 22"
    "- 1 \<le> ?f p" "?f p \<le> 1" for p
  proof -
    show "\<bar>?f p - (real (unat p) / 255 - 1 / 2) / (1 / 2)\<bar> \<le> 1 / 2 ^ 22"
      by (rule pixel_error [OF byte_unit])
    have "\<bar>?f p\<bar> \<le> 1" by (rule pixel_steps(6) [OF byte_unit])
    then show "- 1 \<le> ?f p" "?f p \<le> 1" by linarith+
  qed
  show ?thesis
    using assms r by (simp add: transform_image del: of_nat_unat)
qed

theorem transform_sample_witness:
  "height \<lparr>height = 28, width = 28, pixels = replicate 784 51\<rparr> = 28
   \<and> width \<lparr>height = 28, width = 28, pixels = replicate 784 51\<rparr> = 28
   \<and> length (pixels \<lparr>height = 28, width = 28, pixels = replicate 784 51\<rparr>) = 784
   \<and> (\<exists>t. apply_transform transform (Img \<lparr>height = 28, width = 28, pixels = replicate 784 51\<rparr>)
            = Inr (Ten t)
          \<and> shape t = [1, 28, 28]
          \<and> length (elems t) = 784
          \<and> elems t ! 0 = - (5033165 / 8388608)
          \<and> \<bar>elems t ! 783 - (51 / 255 - 0.5) / 0.5\<bar> \<le> 1 / 2 ^ 22)"
proof -
  let ?pic = "\<lparr>height = 28, width = 28, pixels = replicate 784 51\<rparr>"
  have hyp: "height ?pic = 28" "width ?pic = 28" "length (pixels ?pic) = 784"
    by simp_all
  from transform_sample [OF hyp]
  obtain t where t: "apply_transform transform (Img ?pic) = Inr (Ten t)"
      "shape t = [1, height ?pic, width ?pic]" "length (elems t) = length (pixels ?pic)"
    and el: "\<forall>k<784.
        elems t ! k = fl32 (fl32 (fl32 (real (unat (pixels ?pic ! k)) / 255) - 0.5) / 0.5)
        \<and> \<bar>elems t ! k - (real (unat (pixels ?pic ! k)) / 255 - 0.5) / 0.5\<bar> \<le> 1 / 2 ^ 22
        \<and> - 1 \<le> elems t ! k \<and> elems t ! k \<le> 1"
    by blast
  have "(0::nat) < 784" by simp
  with el have "elems t ! 0
      = fl32 (fl32 (fl32 (real (unat (pixels ?pic ! 0)) / 255) - 0.5) / 0.5)"
    by blast
  then have e0: "elems t ! 0 = - (5033165 / 8388608)"
    using pixel_51 by (simp del: of_nat_unat)
  have "(783::nat) < 784" by simp
  with el have "\<bar>elems t ! 783 - (real (unat (pixels ?pic ! 783)) / 255 - 0.5) / 0.5\<bar>
      \<le> 1 / 2 ^ 22"
    by blast
  then have e1: "\<bar>elems t ! 783 - (51 / 255 - 0.5) / 0.5\<bar> \<le> 1 / 2 ^ 22"
    by simp
  from t have t': "shape t = [1, 28, 28]" "length (elems t) = 784"
    by simp_all
  from hyp t(1) t' e0 e1 show ?thesis
    by blast
qed

text \<open>
  C5 as stated fails on both counts at the sample whose pixels are all 51: the tensor has
  the shape \<open>[1, 28, 28]\<close>, not the sample's \<open>[28, 28]\<close>, and its values are
  \<open>-5033165/8388608\<close>, not the value \<open>-3/5\<close> of the affine map.
\<close>

theorem transform_sample_inexact:
  "apply_transform transform (Img \<lparr>height = 28, width = 28, pixels = replicate 784 51\<rparr>)
     = Inr (Ten \<lparr>dtype = Float32, shape = [1, 28, 28],
                 elems = replicate 784 (- (5033165 / 8388608))\<rparr>)
   \<and> [1, 28, 28] \<noteq> [28, 28 :: nat]
   \<and> - (5033165 / 8388608) \<noteq> ((51 / 255 - 0.5) / 0.5 :: real)"
  using pixel_51 by (simp add: transform_image del: of_nat_unat)

subsection \<open>The layers\<close>

lemma nn_Linear_fst:
  "fst (nn_Linear a b g) =
     \<lparr>in_features = a, out_features = b,
      weight = \<lparr>dtype = Float32, shape = [b, a], elems = map g [0..<b * a]\<rparr>,
      bias = \<lparr>dtype = Float32, shape = [b], elems = map (\<lambda>k. g (b * a + k)) [0..<b]\<rparr>\<rparr>"
  by (simp add: nn_Linear_def draw_def)

lemma nn_Linear_inv: "Linear_inv (fst (nn_Linear a b g))"
  by (simp add: nn_Linear_fst Linear_inv_def wf_tensor_def)

lemma nn_Linear_shapes:
  "in_features (fst (nn_Linear a b g)) = a"
  "out_features (fst (nn_Linear a b g)) = b"
  "dtype (weight (fst (nn_Linear a b g))) = Float32"
  "shape (weight (fst (nn_Linear a b g))) = [b, a]"
  "length (elems (weight (fst (nn_Linear a b g)))) = b * a"
  "dtype (bias (fst (nn_Linear a b g))) = Float32"
  "shape (bias (fst (nn_Linear a b g))) = [b]"
  "length (elems (bias (fst (nn_Linear a b g)))) = b"
  by (simp_all add: nn_Linear_fst)

lemma LinearModel_init_fc:
  "fc1 (fst (LinearModel_init g)) = fst (nn_Linear 784 64 g)"
  "fc2 (fst (LinearModel_init g)) = fst (nn_Linear 64 10 (snd (nn_Linear 784 64 g)))"
  by (simp_all add: LinearModel_init_def split_beta)

lemma LinearModel_init_inv: "LinearModel_inv (fst (LinearModel_init g))"
  by (simp add: LinearModel_inv_def LinearModel_init_fc nn_Linear_inv nn_Linear_shapes)

text \<open>
  C4. Every model that \<^verbatim>\<open>__init__\<close> constructs, whatever the random initial values,
  holds two weight/bias pairs: \<open>fc1\<close> from 784 inputs to 64 hidden values (weight 64 x 784,
  bias 64) and \<open>fc2\<close> from 64 hidden values to 10 outputs (weight 10 x 64, bias 10), so the
  output size of \<open>fc1\<close> is the input size of \<open>fc2\<close>.
\<close>

theorem LinearModel_init_layers:
  "in_features (fc1 (fst (LinearModel_init g))) = 784
   \<and> out_features (fc1 (fst (LinearModel_init g))) = 64
   \<and> shape (weight (fc1 (fst (LinearModel_init g)))) = [64, 784]
   \<and> length (elems (weight (fc1 (fst (LinearModel_init g))))) = 64 * 784
   \<and> shape (bias (fc1 (fst (LinearModel_init g)))) = [64]
   \<and> length (elems (bias (fc1 (fst (LinearModel_init g))))) = 64
   \<and> in_features (fc2 (fst (LinearModel_init g))) = 64
   \<and> out_features (fc2 (fst (LinearModel_init g))) = 10
   \<and> shape (weight (fc2 (fst (LinearModel_init g)))) = [10, 64]
   \<and> length (elems (weight (fc2 (fst (LinearModel_init g))))) = 10 * 64
   \<and> shape (bias (fc2 (fst (LinearModel_init g)))) = [10]
   \<and> length (elems (bias (fc2 (fst (LinearModel_init g))))) = 10
   \<and> out_features (fc1 (fst (LinearModel_init g))) = in_features (fc2 (fst (LinearModel_init g)))
   \<and> LinearModel_inv (fst (LinearModel_init g))"
  by (simp add: LinearModel_init_fc nn_Linear_shapes LinearModel_init_inv)

text \<open>
  A layer that satisfies its invariant accepts every float input whose last dimension is its
  input size, and hands it with its weight and bias to the kernel.
\<close>

lemma Linear_forward_accepts:
  assumes "Linear_inv l" and "dtype inp = Float32" and "shape inp \<noteq> []"
    and "last (shape inp) = in_features l"
  shows "Linear_forward K l inp =
           Inr \<lparr>dtype = Float32, shape = butlast (shape inp) @ [out_features l],
                elems = K inp (weight l) (bias l)\<rparr>"
  using assms by (simp add: Linear_forward_def Linear_inv_def)

text \<open>
  Any other input is refused: first by element type, then by shape.
\<close>

lemma Linear_forward_rejects:
  assumes "Linear_inv l"
  shows "dtype inp \<noteq> Float32 \<Longrightarrow>
           Linear_forward K l inp = Inl (DTypeMismatch (dtype inp) Float32)"
    and "dtype inp = Float32 \<Longrightarrow> shape inp = [] \<or> last (shape inp) \<noteq> in_features l \<Longrightarrow>
           Linear_forward K l inp
             = Inl (ShapeMismatch (shape inp) [out_features l, in_features l])"
  using assms by (auto simp add: Linear_forward_def Linear_inv_def)

lemma relu_fields:
  "dtype (relu t) = dtype t" "shape (relu t) = shape t"
  "elems (relu t) = map (max 0) (elems t)"
  by (simp_all add: relu_def)

subsection \<open>The forward pass\<close>

lemma forward_unfold:
  "forward K m inp =
     (case Linear_forward K (fc1 m) inp of
        Inl e \<Rightarrow> (Inl e, \<lparr>local_self = m, local_x = inp\<rparr>)
      | Inr h \<Rightarrow>
          (case Linear_forward K (fc2 m) (relu h) of
             Inl e \<Rightarrow> (Inl e, \<lparr>local_self = m, local_x = relu h\<rparr>)
           | Inr y \<Rightarrow> (Inr PyNone, \<lparr>local_self = m, local_x = y\<rparr>)))"
  by (simp add: forward_def forward_stmt1_def forward_stmt2_def split: sum.splits)

text \<open>
  The two layers in a row, on an input that the first one accepts.
\<close>

lemma forward_layers:
  assumes "LinearModel_inv m"
    and "dtype inp = Float32" and "shape inp \<noteq> []" and "last (shape inp) = 784"
  shows "Linear_forward K (fc1 m) inp =
           Inr \<lparr>dtype = Float32, shape = butlast (shape inp) @ [64],
                elems = K inp (weight (fc1 m)) (bias (fc1 m))\<rparr>"
    and "Linear_forward K (fc2 m)
           (relu \<lparr>dtype = Float32, shape = butlast (shape inp) @ [64],
                  elems = K inp (weight (fc1 m)) (bias (fc1 m))\<rparr>) =
           Inr \<lparr>dtype = Float32, shape = butlast (shape inp) @ [10],
                elems = K (relu \<lparr>dtype = Float32, shape = butlast (shape inp) @ [64],
                                 elems = K inp (weight (fc1 m)) (bias (fc1 m))\<rparr>)
                          (weight (fc2 m)) (bias (fc2 m))\<rparr>"
proof -
  from assms(1) have i1: "Linear_inv (fc1 m)" and n1: "in_features (fc1 m) = 784"
    and m1: "out_features (fc1 m) = 64" and i2: "Linear_inv (fc2 m)"
    and n2: "in_features (fc2 m) = 64" and m2: "out_features (fc2 m) = 10"
    by (simp_all add: LinearModel_inv_def)
  show "Linear_forward K (fc1 m) inp =
           Inr \<lparr>dtype = Float32, shape = butlast (shape inp) @ [64],
                elems = K inp (weight (fc1 m)) (bias (fc1 m))\<rparr>"
    using Linear_forward_accepts [OF i1 assms(2,3), of K] assms(4) n1 m1 by simp
  let ?h = "\<lparr>dtype = Float32, shape = butlast (shape inp) @ [64],
             elems = K inp (weight (fc1 m)) (bias (fc1 m))\<rparr>"
  have "dtype (relu ?h) = Float32" "shape (relu ?h) \<noteq> []"
    "last (shape (relu ?h)) = in_features (fc2 m)"
    using n2 by (simp_all add: relu_fields)
  from Linear_forward_accepts [OF i2 this, of K] m2
  show "Linear_forward K (fc2 m) (relu ?h) =
           Inr \<lparr>dtype = Float32, shape = butlast (shape inp) @ [10],
                elems = K (relu ?h) (weight (fc2 m)) (bias (fc2 m))\<rparr>"
    by (simp add: relu_fields)
qed

text \<open>
  C2, as amended. For every input that the first layer accepts (a float tensor of at least one
  dimension whose last dimension is 784), \<^verbatim>\<open>forward\<close> returns \<^verbatim>\<open>None\<close>: the
  result of the second layer is computed and bound to the local name \<open>x\<close>, and not returned.
\<close>

theorem forward_returns_None:
  assumes "LinearModel_inv m"
    and "dtype inp = Float32" and "shape inp \<noteq> []" and "last (shape inp) = 784"
  shows "fst (forward K m inp) = Inr PyNone
         \<and> (\<exists>h y. Linear_forward K (fc1 m) inp = Inr h
                  \<and> Linear_forward K (fc2 m) (relu h) = Inr y
                  \<and> local_x (snd (forward K m inp)) = y)"
  by (simp add: forward_unfold forward_layers [OF assms])

theorem forward_returns_None_witness:
  "LinearModel_inv (fst (LinearModel_init real))
   \<and> dtype \<lparr>dtype = Float32, shape = [784], elems = replicate 784 (0::real)\<rparr> = Float32
   \<and> shape \<lparr>dtype = Float32, shape = [784], elems = replicate 784 (0::real)\<rparr> \<noteq> []
   \<and> last (shape \<lparr>dtype = Float32, shape = [784], elems = replicate 784 (0::real)\<rparr>) = 784
   \<and> fst (forward (\<lambda>x w b. elems b) (fst (LinearModel_init real))
         \<lparr>dtype = Float32, shape = [784], elems = replicate 784 0\<rparr>) = Inr PyNone"
  using forward_returns_None [OF LinearModel_init_inv [of real], where
      inp = "\<lparr>dtype = Float32, shape = [784], elems = replicate 784 (0::real)\<rparr>"
      and K = "\<lambda>x w b. elems b"]
  by (simp add: LinearModel_init_inv)

text \<open>
  C2 as stated, for every input, fails: on a tensor of shape \<open>[3]\<close> the first layer raises,
  and the call raises with it instead of returning \<^verbatim>\<open>None\<close>.
\<close>

theorem forward_wrong_shape_not_None:
  "fst (forward (\<lambda>x w b. elems b) (fst (LinearModel_init real))
        \<lparr>dtype = Float32, shape = [3], elems = [0, 0, 0]\<rparr>)
     = Inl (ShapeMismatch [3] [64, 784])
   \<and> fst (forward (\<lambda>x w b. elems b) (fst (LinearModel_init real))
        \<lparr>dtype = Float32, shape = [3], elems = [0, 0, 0]\<rparr>)
     \<noteq> Inr PyNone"
  by (simp add: forward_def forward_stmt1_def Linear_forward_def LinearModel_init_fc
      nn_Linear_shapes)

text \<open>
  C3. For every valid input, and whatever the library's float kernel is, the last value
  computed in \<^verbatim>\<open>forward\<close>, the one bound to the local \<open>x\<close> at exit, is
  \<open>fc2 (relu (fc1 x))\<close>: the kernel on the input with the weight and bias of \<open>fc1\<close>, then the
  larger of zero and each element, then the kernel on that with the weight and bias of
  \<open>fc2\<close>. Its last dimension is 10, and nothing is applied to it after the second layer.
\<close>

theorem forward_computes:
  assumes "LinearModel_inv m"
    and "dtype inp = Float32" and "shape inp \<noteq> []" and "last (shape inp) = 784"
  shows "\<exists>h y. Linear_forward K (fc1 m) inp = Inr h
           \<and> dtype h = Float32
           \<and> shape h = butlast (shape inp) @ [64]
           \<and> elems h = K inp (weight (fc1 m)) (bias (fc1 m))
           \<and> dtype (relu h) = Float32
           \<and> shape (relu h) = shape h
           \<and> elems (relu h) = map (max 0) (elems h)
           \<and> Linear_forward K (fc2 m) (relu h) = Inr y
           \<and> dtype y = Float32
           \<and> shape y = butlast (shape inp) @ [10]
           \<and> elems y = K (relu h) (weight (fc2 m)) (bias (fc2 m))
           \<and> local_x (snd (forward K m inp)) = y"
proof -
  let ?h = "\<lparr>dtype = Float32, shape = butlast (shape inp) @ [64],
             elems = K inp (weight (fc1 m)) (bias (fc1 m))\<rparr>"
  let ?y = "\<lparr>dtype = Float32, shape = butlast (shape inp) @ [10],
             elems = K (relu ?h) (weight (fc2 m)) (bias (fc2 m))\<rparr>"
  note l = forward_layers [OF assms, of K]
  have "local_x (snd (forward K m inp)) = ?y"
    by (simp add: forward_unfold l)
  with l show ?thesis
    by (intro exI [of _ ?h] exI [of _ ?y]) (simp add: relu_fields)
qed

theorem forward_computes_witness:
  "LinearModel_inv (fst (LinearModel_init real))
   \<and> dtype \<lparr>dtype = Float32, shape = [2, 784], elems = replicate 1568 (0::real)\<rparr> = Float32
   \<and> shape \<lparr>dtype = Float32, shape = [2, 784], elems = replicate 1568 (0::real)\<rparr> \<noteq> []
   \<and> last (shape \<lparr>dtype = Float32, shape = [2, 784], elems = replicate 1568 (0::real)\<rparr>) = 784
   \<and> shape (local_x (snd (forward (\<lambda>x w b. elems b) (fst (LinearModel_init real))
         \<lparr>dtype = Float32, shape = [2, 784], elems = replicate 1568 0\<rparr>))) = [2, 10]
   \<and> elems (local_x (snd (forward (\<lambda>x w b. elems b) (fst (LinearModel_init real))
         \<lparr>dtype = Float32, shape = [2, 784], elems = replicate 1568 0\<rparr>)))
       = elems (bias (fc2 (fst (LinearModel_init real))))"
  using forward_computes [OF LinearModel_init_inv [of real], where
      inp = "\<lparr>dtype = Float32, shape = [2, 784], elems = replicate 1568 (0::real)\<rparr>"
      and K = "\<lambda>x w b. elems b"]
  by (auto simp add: LinearModel_init_inv)

text \<open>
  C8. A call of \<^verbatim>\<open>forward\<close> leaves the model as it was, whether it returns or raises:
  the object that \<open>self\<close> refers to at exit is the model passed in, with the same two layers
  (weights and biases), and no field holds the output of the last layer.
\<close>

theorem forward_frame:
  "local_self (snd (forward K m inp)) = m
   \<and> fc1 (local_self (snd (forward K m inp))) = fc1 m
   \<and> fc2 (local_self (snd (forward K m inp))) = fc2 m"
  by (simp add: forward_unfold split: sum.splits)

subsection \<open>Errors\<close>

lemma cell3_download_fails:
  assumes "disk w ''./data'' = None" and "mirror w = Inl e"
  shows "cell3 w = (Inl e, w)"
  using assms by (simp add: cell3_def MNIST_init_def MNIST_download_def)

text \<open>
  C6. Nothing in the notebook catches an error. An error that \<open>fc1\<close> raises is the error
  of \<^verbatim>\<open>forward\<close>, with the model and the local \<open>x\<close> untouched; a float input whose last
  dimension is not 784 is such a case (shape mismatch), an input of another element type as
  well (type mismatch); and when the files are not cached and the download fails, the error of
  the download is the error of the cell, and nothing is written.
\<close>

theorem errors_propagate:
  assumes "LinearModel_inv m"
  shows "(Linear_forward K (fc1 m) inp = Inl e \<longrightarrow>
            forward K m inp = (Inl e, \<lparr>local_self = m, local_x = inp\<rparr>))
       \<and> (dtype inp_s = Float32 \<and> (shape inp_s = [] \<or> last (shape inp_s) \<noteq> 784) \<longrightarrow>
            forward K m inp_s = (Inl (ShapeMismatch (shape inp_s) [64, 784]),
                                \<lparr>local_self = m, local_x = inp_s\<rparr>))
       \<and> (dtype inp_d \<noteq> Float32 \<and> shape inp_d \<noteq> [] \<and> last (shape inp_d) = 784 \<longrightarrow>
            forward K m inp_d = (Inl (DTypeMismatch (dtype inp_d) Float32),
                                \<lparr>local_self = m, local_x = inp_d\<rparr>))
       \<and> (disk w ''./data'' = None \<and> mirror w = Inl err \<longrightarrow> cell3 w = (Inl err, w))"
proof -
  from assms have i1: "Linear_inv (fc1 m)" and n1: "in_features (fc1 m) = 784"
    and m1: "out_features (fc1 m) = 64"
    by (simp_all add: LinearModel_inv_def)
  show ?thesis
    using Linear_forward_rejects(2) [OF i1, where inp = inp_s and K = K]
      Linear_forward_rejects(1) [OF i1, where inp = inp_d and K = K]
    by (auto simp add: forward_unfold n1 m1 cell3_download_fails)
qed

theorem errors_propagate_witness:
  "LinearModel_inv (fst (LinearModel_init real))
   \<and> Linear_forward (\<lambda>x w b. elems b) (fc1 (fst (LinearModel_init real)))
         \<lparr>dtype = Float32, shape = [2, 5], elems = replicate 10 0\<rparr>
       = Inl (ShapeMismatch [2, 5] [64, 784])
   \<and> forward (\<lambda>x w b. elems b) (fst (LinearModel_init real))
         \<lparr>dtype = Float32, shape = [2, 5], elems = replicate 10 0\<rparr>
       = (Inl (ShapeMismatch [2, 5] [64, 784]),
          \<lparr>local_self = fst (LinearModel_init real),
           local_x = \<lparr>dtype = Float32, shape = [2, 5], elems = replicate 10 0\<rparr>\<rparr>)
   \<and> forward (\<lambda>x w b. elems b) (fst (LinearModel_init real))
         \<lparr>dtype = Float32, shape = [3], elems = [0, 0, 0]\<rparr>
       = (Inl (ShapeMismatch [3] [64, 784]),
          \<lparr>local_self = fst (LinearModel_init real),
           local_x = \<lparr>dtype = Float32, shape = [3], elems = [0, 0, 0]\<rparr>\<rparr>)
   \<and> forward (\<lambda>x w b. elems b) (fst (LinearModel_init real))
         \<lparr>dtype = Int32, shape = [784], elems = replicate 784 0\<rparr>
       = (Inl (DTypeMismatch Int32 Float32),
          \<lparr>local_self = fst (LinearModel_init real),
           local_x = \<lparr>dtype = Int32, shape = [784], elems = replicate 784 0\<rparr>\<rparr>)
   \<and> cell3 \<lparr>disk = Map.empty, mirror = Inl DownloadFailed\<rparr>
       = (Inl DownloadFailed, \<lparr>disk = Map.empty, mirror = Inl DownloadFailed\<rparr>)"
  using errors_propagate [OF LinearModel_init_inv [of real], where
      K = "\<lambda>x w b. elems b"
      and inp = "\<lparr>dtype = Float32, shape = [2, 5], elems = replicate 10 0\<rparr>"
      and e = "ShapeMismatch [2, 5] [64, 784]"
      and inp_s = "\<lparr>dtype = Float32, shape = [3], elems = [0, 0, 0]\<rparr>"
      and inp_d = "\<lparr>dtype = Int32, shape = [784], elems = replicate 784 0\<rparr>"
      and w = "\<lparr>disk = Map.empty, mirror = Inl DownloadFailed\<rparr>"
      and err = DownloadFailed]
    Linear_forward_rejects(2) [OF nn_Linear_inv [of 784 64 real], where
      inp = "\<lparr>dtype = Float32, shape = [2, 5], elems = replicate 10 0\<rparr>"
      and K = "\<lambda>x w b. elems b"]
  by (simp add: LinearModel_init_inv LinearModel_init_fc nn_Linear_shapes)

subsection \<open>The datasets and the loaders\<close>

lemma MNIST_init_download_result:
  "MNIST_init rt trn True tf w = (Inr ds, w') \<Longrightarrow>
     ds_root ds = rt \<and> ds_train ds = trn \<and> ds_transform ds = tf
     \<and> (\<exists>f. disk w' rt = Some f \<and> ds_data ds = (if trn then train_files f else test_files f))
     \<and> (disk w rt = None \<longrightarrow> (\<exists>f. mirror w = Inr f)) \<and> mirror w' = mirror w
     \<and> (\<forall>f. disk w rt = Some f \<longrightarrow> w' = w)"
  by (auto simp add: MNIST_init_def MNIST_download_def split: option.splits sum.splits)

lemma cell3_result:
  assumes "cell3 w = (Inr env, w')"
  shows "\<exists>w1. MNIST_init ''./data'' True True (Some transform) w = (Inr (train_dataset env), w1)
            \<and> MNIST_init ''./data'' False True (Some transform) w1 = (Inr (test_dataset env), w')
            \<and> batch_size env = 64
            \<and> train_loader env
                = \<lparr>dl_dataset = train_dataset env, dl_batch_size = 64, dl_shuffle = True\<rparr>
            \<and> test_loader env
                = \<lparr>dl_dataset = test_dataset env, dl_batch_size = 64, dl_shuffle = False\<rparr>"
  using assms by (auto simp add: cell3_def split: prod.splits sum.splits)

text \<open>
  C9. When the cell succeeds, the train and the test dataset both have the root
  \<^verbatim>\<open>./data\<close>, the first with \<^verbatim>\<open>train=True\<close> and the second with
  \<^verbatim>\<open>train=False\<close>, and both carry the one transform defined above. Both are
  constructed with \<^verbatim>\<open>download=True\<close>: they read the training and the test part of the
  same files, which are under \<^verbatim>\<open>./data\<close> afterwards, fetched from the mirror if they
  were not there before.
\<close>

theorem cell3_datasets:
  assumes "cell3 w = (Inr env, w')"
  shows "ds_root (train_dataset env) = ''./data'' \<and> ds_root (test_dataset env) = ''./data''
       \<and> ds_train (train_dataset env) \<and> \<not> ds_train (test_dataset env)
       \<and> ds_transform (train_dataset env) = Some transform
       \<and> ds_transform (test_dataset env) = ds_transform (train_dataset env)
       \<and> (\<exists>f. disk w' ''./data'' = Some f
              \<and> ds_data (train_dataset env) = train_files f
              \<and> ds_data (test_dataset env) = test_files f)
       \<and> (disk w ''./data'' = None \<longrightarrow> (\<exists>f. mirror w = Inr f))"
proof -
  from cell3_result [OF assms] obtain w1 where
    a: "MNIST_init ''./data'' True True (Some transform) w = (Inr (train_dataset env), w1)" and
    b: "MNIST_init ''./data'' False True (Some transform) w1 = (Inr (test_dataset env), w')"
    by blast
  from MNIST_init_download_result [OF a] obtain f where
    f: "disk w1 ''./data'' = Some f" "ds_data (train_dataset env) = train_files f"
    by auto
  from MNIST_init_download_result [OF b] f(1) have "w' = w1"
    by blast
  with MNIST_init_download_result [OF a] MNIST_init_download_result [OF b] f
  show ?thesis by auto
qed

theorem cell3_datasets_witness:
  "\<exists>env w'.
     cell3 \<lparr>disk = Map.empty,
            mirror = Inr \<lparr>train_files = [(\<lparr>height = 1, width = 1, pixels = [0]\<rparr>, 5)],
                          test_files = [(\<lparr>height = 1, width = 1, pixels = [255]\<rparr>, 7)]\<rparr>\<rparr>
       = (Inr env, w')
     \<and> ds_root (train_dataset env) = ''./data'' \<and> ds_root (test_dataset env) = ''./data''
     \<and> ds_train (train_dataset env) \<and> \<not> ds_train (test_dataset env)
     \<and> ds_transform (train_dataset env) = Some transform
     \<and> ds_transform (test_dataset env) = Some transform
     \<and> ds_data (train_dataset env) = [(\<lparr>height = 1, width = 1, pixels = [0]\<rparr>, 5)]
     \<and> ds_data (test_dataset env) = [(\<lparr>height = 1, width = 1, pixels = [255]\<rparr>, 7)]"
proof -
  let ?w = "\<lparr>disk = Map.empty,
            mirror = Inr \<lparr>train_files = [(\<lparr>height = 1, width = 1, pixels = [0]\<rparr>, 5)],
                          test_files = [(\<lparr>height = 1, width = 1, pixels = [255]\<rparr>, 7)]\<rparr>\<rparr>"
  obtain env w' where c: "cell3 ?w = (Inr env, w')"
    by (simp add: cell3_def MNIST_init_def MNIST_download_def)
  have d: "ds_data (train_dataset env) = [(\<lparr>height = 1, width = 1, pixels = [0]\<rparr>, 5)]"
    "ds_data (test_dataset env) = [(\<lparr>height = 1, width = 1, pixels = [255]\<rparr>, 7)]"
    using c by (auto simp add: cell3_def MNIST_init_def MNIST_download_def)
  from cell3_datasets [OF c] c d show ?thesis
    by (intro exI [of _ env] exI [of _ w']) simp
qed









subsection \<open>The conversions\<close>

lemma fits_cast_Int32: "fits Int32 v \<Longrightarrow> cast Int32 v = v"
  by (simp add: fits_def cast_def signed_take_bit_int_eq_self_iff sint_sbintrunc')

text \<open>
  Each of the conversions of the cell keeps any list of integers that fit 32 bits.
\<close>

lemma conversions_keep_int32:
  assumes "list_all (fits Int32) xs"
  shows "\<exists>t. torch_tensor_of_list xs Int32 = Inr t
           \<and> tf_convert_to_tensor (torch_numpy t) = t
           \<and> tf_constant xs Int32 = Inr t
           \<and> torch_tensor_of_array (tf_numpy t) Int32 = t"
proof -
  have "map (cast Int32) xs = xs"
    using assms by (induction xs) (simp_all add: fits_cast_Int32)
  with assms show ?thesis
    by (simp add: torch_tensor_of_list_def tf_constant_def torch_numpy_def tf_numpy_def
        tf_convert_to_tensor_def torch_tensor_of_array_def)
qed

text \<open>
  C7. The two conversions of the cell keep contents and element type. The tensorflow tensor
  made from \<^verbatim>\<open>pytorch_tensor.numpy()\<close> has the elements \<open>[1, 2, 3]\<close> and the type
  \<open>int32\<close> of the torch tensor; the torch tensor made from the numpy array of the tensorflow
  tensor has the elements and the type of that tensor. The four lines printed are those
  recorded in the notebook.
\<close>

theorem conversions_preserve:
  "cell2_first =
     Inr \<lparr>pytorch_tensor = \<lparr>dtype = Int32, shape = [3], elems = [1, 2, 3]\<rparr>,
          tf_tensor = \<lparr>dtype = Int32, shape = [3], elems = [1, 2, 3]\<rparr>,
          numpy_array = None,
          stdout = [''torch.int32'', ''<dtype: '' @ [CHR 0x27] @ ''int32'' @ [CHR 0x27] @ ''>'']\<rparr>
   \<and> cell2 =
     Inr \<lparr>pytorch_tensor = \<lparr>dtype = Int32, shape = [3], elems = [1, 2, 3]\<rparr>,
          tf_tensor = \<lparr>dtype = Int32, shape = [3], elems = [1, 2, 3]\<rparr>,
          numpy_array = Some \<lparr>dtype = Int32, shape = [3], elems = [1, 2, 3]\<rparr>,
          stdout =
            [''torch.int32'',
             ''<dtype: '' @ [CHR 0x27] @ ''int32'' @ [CHR 0x27] @ ''>'',
             ''TensorFlow Tensor: <dtype: '' @ [CHR 0x27] @ ''int32'' @ [CHR 0x27] @ ''>'',
             ''PyTorch Tensor: torch.int32'']\<rparr>"
  by (simp add: cell2_def cell2_first_def cell2_second_def torch_tensor_of_list_def
      tf_constant_def torch_numpy_def tf_numpy_def tf_convert_to_tensor_def
      torch_tensor_of_array_def fits_def fits_cast_Int32 torch_dtype_str_def tf_dtype_str_def
      dtype_name_def Let_def)

end
